theory Spec2Isabelle
  imports Main "HOL-Library.Word" "HOL-Library.Sublist"
begin

section \<open>The channel component of the chat server\<close>

text \<open>
  A shallow embedding of \<^verbatim>\<open>jchat_server/src/components/channel_component.cpp\<close>:
  the message handler \<^verbatim>\<open>ChannelComponent::Handle\<close> (join and leave requests), the
  disconnect sweep \<^verbatim>\<open>ChannelComponent::OnClientDisconnected\<close> and the lifecycle
  hooks that clear the channel list.

  The embedding runs one operation at a time: the mutexes of the source are not
  modelled, and every operation is followed from its first line to its last without
  interleaving.
\<close>

subsection \<open>Data\<close>

text \<open>
  A connection is known to the component by the address of its \<^verbatim>\<open>RemoteChatClient\<close>
  object (the key of both maps of a channel), and a user by the address of the
  \<^verbatim>\<open>ChatUser\<close> object that the \<^verbatim>\<open>std::shared_ptr\<close>s of the maps point to.
  The user objects are owned by the user component; the channel component only reads
  them, through the heap it is given.
\<close>

type_synonym RemoteChatClient = nat
type_synonym ChatUser_ptr = nat

text \<open>
  Modelled from the spec: the fields of \<^verbatim>\<open>ChatUser\<close> (its header is not part of
  the sources): username, hostname, the identified flag and the enabled flag. The field
  \<^verbatim>\<open>ChatUser::Enabled\<close> is called \<open>UserEnabled\<close> here, apart from
  \<^verbatim>\<open>ChatChannel::Enabled\<close>.
\<close>

record ChatUser =
  Username :: string
  Hostname :: string
  Identified :: bool
  UserEnabled :: bool

text \<open>
  A \<^verbatim>\<open>std::map\<close> from connections to users: an association list in the order of
  the keys, which is the order a range-for loop visits it in.
\<close>

type_synonym user_map = "(RemoteChatClient \<times> ChatUser_ptr) list"

record ChatChannel =
  Name :: string
  Enabled :: bool
  Operators :: user_map
  Clients :: user_map

datatype ComponentType = kComponentType_User | kComponentType_Channel

text \<open>
  The message types and result codes that the handler names. The enumeration of
  \<^verbatim>\<open>channel_message_type.h\<close> as it stands declares \<open>kChannelMessageType_Max\<close>
  only; the four message types and the result codes are declared nowhere in the sources.
  The handler only compares and writes them, so they stay symbolic.
  \<open>kChannelMessageType_Max\<close> stands for every message type that is none of the four
  others.
\<close>

datatype ChannelMessageType =
    kChannelMessageType_JoinChannel
  | kChannelMessageType_JoinChannel_Complete
  | kChannelMessageType_LeaveChannel
  | kChannelMessageType_LeaveChannel_Complete
  | kChannelMessageType_Max

datatype ChannelMessageResult =
    kChannelMessageResult_Ok
  | kChannelMessageResult_ChannelCreated
  | kChannelMessageResult_NotIdentified
  | kChannelMessageResult_InvalidChannelName
  | kChannelMessageResult_AlreadyInChannel
  | kChannelMessageResult_NotInChannel
  | kChannelMessageResult_UserJoined
  | kChannelMessageResult_UserLeft

text \<open>
  An outgoing \<^verbatim>\<open>TypedBuffer\<close> is the list of the fields written to it, in order.
\<close>

datatype field =
    WriteUInt16 ChannelMessageResult
  | WriteUInt32 "32 word"
  | WriteString string

type_synonym TypedBuffer = "field list"

text \<open>
  What an operation does to the outside, in order: the unicast sends through the server
  and the observer events it raises.
\<close>

datatype effect =
    SendUnicast RemoteChatClient ComponentType ChannelMessageType TypedBuffer
  | OnJoinCompleted ChannelMessageResult ChatUser_ptr
  | OnLeaveCompleted ChannelMessageResult ChatUser_ptr
  | OnChannelCreated string
  | OnChannelJoined string ChatUser_ptr
  | OnChannelLeft string ChatUser_ptr

text \<open>
  The collaborators of the handler. \<open>UserComponent\<close> is what
  \<^verbatim>\<open>server_->GetComponent(kComponentType_User, ...)\<close> yields (\<open>None\<close> when it
  fails), a user component being its \<^verbatim>\<open>GetChatUser\<close>; \<open>Heap\<close> reads the
  \<^verbatim>\<open>ChatUser\<close> object behind a pointer.
\<close>

record ChatServer =
  UserComponent :: "(RemoteChatClient \<Rightarrow> ChatUser_ptr option) option"
  Heap :: "ChatUser_ptr \<Rightarrow> ChatUser"

text \<open>
  An operation either returns or dereferences a null \<^verbatim>\<open>std::shared_ptr\<close>, which
  ends the process. With the outcome come the channel list and the effects as they are
  at that point.
\<close>

datatype 'a outcome = Returned 'a | NullPointerDereference

subsection \<open>The map operations the component uses\<close>

text \<open>
  An iterator remembers the map it points into. \<open>PastTheEnd\<close> is what
  \<^verbatim>\<open>end()\<close> returns and what \<^verbatim>\<open>find\<close> returns for an absent key; the
  past-the-end iterators of two maps are different objects and never compare equal.
\<close>

datatype map_id = OperatorsMap | ClientsMap

datatype iterator = Element map_id RemoteChatClient | PastTheEnd map_id

definition map_find :: "map_id \<Rightarrow> user_map \<Rightarrow> RemoteChatClient \<Rightarrow> iterator" where
  "map_find m xs k = (case map_of xs k of None \<Rightarrow> PastTheEnd m | Some v \<Rightarrow> Element m k)"

definition map_end :: "map_id \<Rightarrow> iterator" where
  "map_end m = PastTheEnd m"

text \<open>\<^verbatim>\<open>m[k] = v\<close>: overwrite the entry of \<open>k\<close>, or insert it at its place.\<close>

fun map_assign :: "RemoteChatClient \<Rightarrow> ChatUser_ptr \<Rightarrow> user_map \<Rightarrow> user_map" where
  "map_assign k v [] = [(k, v)]"
| "map_assign k v (p # xs) =
     (if k < fst p then (k, v) # p # xs
      else if k = fst p then (k, v) # xs
      else p # map_assign k v xs)"

text \<open>\<^verbatim>\<open>m.erase(k)\<close>: remove the entry of \<open>k\<close> when there is one.\<close>

definition map_erase :: "RemoteChatClient \<Rightarrow> user_map \<Rightarrow> user_map" where
  "map_erase k xs = filter (\<lambda>p. fst p \<noteq> k) xs"

text \<open>\<^verbatim>\<open>WriteUInt32(m.size())\<close>: the size, cut to 32 bits.\<close>

definition map_size :: "user_map \<Rightarrow> 32 word" where
  "map_size xs = of_nat (length xs)"

text \<open>
  Modelled from the spec: \<^verbatim>\<open>String::Contains\<close> of \<^verbatim>\<open>string.hpp\<close>, which is
  not part of the sources: whether the second string occurs in the first.
\<close>

definition Contains :: "string \<Rightarrow> string \<Rightarrow> bool" where
  "Contains s t = list_ex (prefix t) (suffixes s)"

subsection \<open>The loops over the members of a channel\<close>

text \<open>
  \<^verbatim>\<open>for (auto &pair : m) if (pair.second->Enabled) { WriteString(Username);
  WriteString(Hostname); }\<close>
\<close>

definition WriteUsers :: "(ChatUser_ptr \<Rightarrow> ChatUser) \<Rightarrow> user_map \<Rightarrow> TypedBuffer" where
  "WriteUsers heap m =
     concat (map (\<lambda>pair. [WriteString (Username (heap (snd pair))),
                           WriteString (Hostname (heap (snd pair)))])
                 (filter (\<lambda>pair. UserEnabled (heap (snd pair))) m))"

text \<open>
  \<^verbatim>\<open>for (auto &pair : m) if (pair.second->Enabled) server_->SendUnicast(pair.first,
  kComponentType_Channel, message_type, buffer);\<close>
\<close>

definition SendToEnabled ::
  "(ChatUser_ptr \<Rightarrow> ChatUser) \<Rightarrow> ChannelMessageType \<Rightarrow> TypedBuffer \<Rightarrow> user_map \<Rightarrow> effect list" where
  "SendToEnabled heap message_type buffer m =
     map (\<lambda>pair. SendUnicast (fst pair) kComponentType_Channel message_type buffer)
         (filter (\<lambda>pair. UserEnabled (heap (snd pair))) m)"

subsection \<open>The channel list\<close>

text \<open>
  \<^verbatim>\<open>for (auto &channel : channels_) if (channel->Enabled && channel->Name ==
  channel_name) { chat_channel = channel; break; }\<close>: the position of the first enabled
  channel of that name.
\<close>

fun find_channel :: "string \<Rightarrow> ChatChannel list \<Rightarrow> nat option" where
  "find_channel channel_name [] = None"
| "find_channel channel_name (channel # channels) =
     (if Enabled channel \<and> Name channel = channel_name then Some 0
      else map_option Suc (find_channel channel_name channels))"

text \<open>
  Modelled from the spec: the constructor of \<^verbatim>\<open>ChatChannel\<close> (its header is not
  part of the sources): a new channel is enabled, and its maps are empty.
\<close>

definition make_ChatChannel :: ChatChannel where
  "make_ChatChannel = \<lparr>Name = [], Enabled = True, Operators = [], Clients = []\<rparr>"

subsection \<open>Lifecycle hooks\<close>

text \<open>\<^verbatim>\<open>if (!channels_.empty()) channels_.clear(); return true;\<close>\<close>

definition Shutdown :: "ChatChannel list \<Rightarrow> bool \<times> ChatChannel list" where
  "Shutdown channels = (True, if channels \<noteq> [] then [] else channels)"

definition OnStop :: "ChatChannel list \<Rightarrow> bool \<times> ChatChannel list" where
  "OnStop channels = (True, if channels \<noteq> [] then [] else channels)"

definition destructor :: "ChatChannel list \<Rightarrow> ChatChannel list" where
  "destructor channels = (if channels \<noteq> [] then [] else channels)"

subsection \<open>The disconnect sweep\<close>

text \<open>
  The body of the loop of \<^verbatim>\<open>OnClientDisconnected\<close> for one channel. When the
  last member goes, the channel is disabled and the local handle is reset; the unlock of
  \<^verbatim>\<open>channel->ClientsMutex\<close> that follows goes through the reset handle.

  The guard of the removal from the operators compares an iterator into
  \<^verbatim>\<open>Operators\<close> with \<^verbatim>\<open>Clients.end()\<close>.

  The read \<^verbatim>\<open>channel->Clients[&client]\<close> follows a successful
  \<^verbatim>\<open>find\<close> and yields the user stored under the key; under an absent key it
  would yield a null pointer, which the next lines dereference.
\<close>

definition OnClientDisconnected_channel ::
  "(ChatUser_ptr \<Rightarrow> ChatUser) \<Rightarrow> RemoteChatClient \<Rightarrow> ChatChannel \<Rightarrow>
     unit outcome \<times> ChatChannel \<times> effect list" where
  "OnClientDisconnected_channel heap client channel =
     (if Enabled channel then
        (case (if map_find ClientsMap (Clients channel) client \<noteq> map_end ClientsMap then
                 (case map_of (Clients channel) client of
                    None \<Rightarrow> (NullPointerDereference, channel, [])
                  | Some chat_user \<Rightarrow>
                      let clients_buffer =
                            [WriteUInt16 kChannelMessageResult_UserLeft,
                             WriteString (Username (heap chat_user)),
                             WriteString (Hostname (heap chat_user))];
                          effects =
                            SendToEnabled heap kChannelMessageType_LeaveChannel clients_buffer
                              (Clients channel)
                            @ [OnChannelLeft (Name channel) chat_user];
                          channel = channel\<lparr>Clients := map_erase client (Clients channel)\<rparr>
                      in if Clients channel = []
                         then (NullPointerDereference, channel\<lparr>Enabled := False\<rparr>, effects)
                         else (Returned (), channel, effects))
               else (Returned (), channel, []))
         of
           (NullPointerDereference, channel, effects) \<Rightarrow>
             (NullPointerDereference, channel, effects)
         | (Returned u, channel, effects) \<Rightarrow>
             (Returned (),
              (if map_find OperatorsMap (Operators channel) client \<noteq> map_end ClientsMap
               then channel\<lparr>Operators := map_erase client (Operators channel)\<rparr>
               else channel),
              effects))
      else (Returned (), channel, []))"

text \<open>The loop over \<^verbatim>\<open>channels_\<close>; it ends where the process does.\<close>

fun OnClientDisconnected ::
  "(ChatUser_ptr \<Rightarrow> ChatUser) \<Rightarrow> RemoteChatClient \<Rightarrow> ChatChannel list \<Rightarrow>
     unit outcome \<times> ChatChannel list \<times> effect list" where
  "OnClientDisconnected heap client [] = (Returned (), [], [])"
| "OnClientDisconnected heap client (channel # channels) =
     (case OnClientDisconnected_channel heap client channel of
        (NullPointerDereference, channel', effects) \<Rightarrow>
          (NullPointerDereference, channel' # channels, effects)
      | (Returned u, channel', effects) \<Rightarrow>
          (case OnClientDisconnected heap client channels of
             (result, channels', effects') \<Rightarrow>
               (result, channel' # channels', effects @ effects')))"

subsection \<open>The message handler\<close>

text \<open>
  The incoming buffer is read once, by \<^verbatim>\<open>buffer.ReadString(channel_name)\<close>; the
  class \<^verbatim>\<open>TypedBuffer\<close> is not part of the sources, so the handler is given what
  that read yields: \<open>None\<close> when it fails, the channel name otherwise.
\<close>

text \<open>The branch of \<^verbatim>\<open>Handle\<close> for \<open>kChannelMessageType_JoinChannel\<close>.\<close>

definition Handle_JoinChannel ::
  "ChatServer \<Rightarrow> RemoteChatClient \<Rightarrow> string option \<Rightarrow> ChatChannel list \<Rightarrow>
     bool outcome \<times> ChatChannel list \<times> effect list" where
  "Handle_JoinChannel server client buffer channels =
     (case buffer of
        None \<Rightarrow> (Returned False, channels, [])
      | Some channel_name \<Rightarrow>
     (case UserComponent server of
        None \<Rightarrow> (Returned False, channels, [])
      | Some user_component \<Rightarrow>
     (case user_component client of
        None \<Rightarrow> (Returned False, channels, [])
      | Some chat_user \<Rightarrow>
     if \<not> Identified (Heap server chat_user) then
       (Returned True, channels,
        [SendUnicast client kComponentType_Channel kChannelMessageType_JoinChannel_Complete
           [WriteUInt16 kChannelMessageResult_NotIdentified],
         OnJoinCompleted kChannelMessageResult_NotIdentified chat_user])
     else if \<not> Contains channel_name ''#'' then
       (Returned True, channels,
        [SendUnicast client kComponentType_Channel kChannelMessageType_JoinChannel_Complete
           [WriteUInt16 kChannelMessageResult_InvalidChannelName],
         OnJoinCompleted kChannelMessageResult_InvalidChannelName chat_user])
     else
     (case find_channel channel_name channels of
        None \<Rightarrow>
          let chat_channel = make_ChatChannel;
              chat_channel = chat_channel\<lparr>Name := channel_name\<rparr>;
              chat_channel = chat_channel
                \<lparr>Operators := map_assign client chat_user (Operators chat_channel)\<rparr>;
              chat_channel = chat_channel
                \<lparr>Clients := map_assign client chat_user (Clients chat_channel)\<rparr>
          in (Returned True, channels @ [chat_channel],
              [SendUnicast client kComponentType_Channel
                 kChannelMessageType_JoinChannel_Complete
                 [WriteUInt16 kChannelMessageResult_ChannelCreated],
               OnJoinCompleted kChannelMessageResult_ChannelCreated chat_user,
               OnChannelCreated (Name chat_channel),
               OnChannelJoined (Name chat_channel) chat_user])
      | Some i \<Rightarrow>
          let chat_channel = channels ! i in
          if map_find ClientsMap (Clients chat_channel) client \<noteq> map_end ClientsMap then
            (Returned True, channels,
             [SendUnicast client kComponentType_Channel
                kChannelMessageType_JoinChannel_Complete
                [WriteUInt16 kChannelMessageResult_AlreadyInChannel],
              OnJoinCompleted kChannelMessageResult_AlreadyInChannel chat_user])
          else
            let chat_channel = chat_channel
                  \<lparr>Clients := map_assign client chat_user (Clients chat_channel)\<rparr>;
                client_buffer =
                  [WriteUInt16 kChannelMessageResult_Ok]
                  @ [WriteUInt32 (map_size (Operators chat_channel))]
                  @ WriteUsers (Heap server) (Operators chat_channel)
                  @ [WriteUInt32 (map_size (Clients chat_channel))]
                  @ WriteUsers (Heap server) (Clients chat_channel);
                clients_buffer =
                  [WriteUInt16 kChannelMessageResult_UserJoined,
                   WriteString (Username (Heap server chat_user)),
                   WriteString (Hostname (Heap server chat_user))]
            in (Returned True, channels[i := chat_channel],
                [SendUnicast client kComponentType_Channel
                   kChannelMessageType_JoinChannel_Complete client_buffer]
                @ SendToEnabled (Heap server) kChannelMessageType_JoinChannel clients_buffer
                    (Clients chat_channel)
                @ [OnJoinCompleted kChannelMessageResult_Ok chat_user,
                   OnChannelJoined (Name chat_channel) chat_user])))))"

text \<open>
  The branch for \<open>kChannelMessageType_LeaveChannel\<close>. When the last member goes, the
  channel is disabled and the local handle is reset; the unlock of
  \<^verbatim>\<open>chat_channel->ClientsMutex\<close> that follows goes through the reset handle, before
  the operators are touched and before the reply is written.
\<close>

definition Handle_LeaveChannel ::
  "ChatServer \<Rightarrow> RemoteChatClient \<Rightarrow> string option \<Rightarrow> ChatChannel list \<Rightarrow>
     bool outcome \<times> ChatChannel list \<times> effect list" where
  "Handle_LeaveChannel server client buffer channels =
     (case buffer of
        None \<Rightarrow> (Returned False, channels, [])
      | Some channel_name \<Rightarrow>
     (case UserComponent server of
        None \<Rightarrow> (Returned False, channels, [])
      | Some user_component \<Rightarrow>
     (case user_component client of
        None \<Rightarrow> (Returned False, channels, [])
      | Some chat_user \<Rightarrow>
     if \<not> Identified (Heap server chat_user) then
       (Returned True, channels,
        [SendUnicast client kComponentType_Channel kChannelMessageType_LeaveChannel_Complete
           [WriteUInt16 kChannelMessageResult_NotIdentified],
         OnLeaveCompleted kChannelMessageResult_NotIdentified chat_user])
     else if \<not> Contains channel_name ''#'' then
       (Returned True, channels,
        [SendUnicast client kComponentType_Channel kChannelMessageType_LeaveChannel_Complete
           [WriteUInt16 kChannelMessageResult_InvalidChannelName],
         OnLeaveCompleted kChannelMessageResult_InvalidChannelName chat_user])
     else
     (case find_channel channel_name channels of
        None \<Rightarrow>
          (Returned True, channels,
           [SendUnicast client kComponentType_Channel
              kChannelMessageType_LeaveChannel_Complete
              [WriteUInt16 kChannelMessageResult_InvalidChannelName],
            OnLeaveCompleted kChannelMessageResult_InvalidChannelName chat_user])
      | Some i \<Rightarrow>
          let chat_channel = channels ! i in
          if map_find ClientsMap (Clients chat_channel) client \<noteq> map_end ClientsMap then
            let clients_buffer =
                  [WriteUInt16 kChannelMessageResult_UserLeft,
                   WriteString (Username (Heap server chat_user)),
                   WriteString (Hostname (Heap server chat_user))];
                effects =
                  SendToEnabled (Heap server) kChannelMessageType_LeaveChannel clients_buffer
                    (Clients chat_channel)
                  @ [OnChannelLeft (Name chat_channel) chat_user];
                chat_channel = chat_channel
                  \<lparr>Clients := map_erase client (Clients chat_channel)\<rparr>
            in if Clients chat_channel = [] then
                 (NullPointerDereference,
                  channels[i := chat_channel\<lparr>Enabled := False\<rparr>], effects)
               else
                 let chat_channel =
                       (if map_find OperatorsMap (Operators chat_channel) client
                             \<noteq> map_end ClientsMap
                        then chat_channel
                          \<lparr>Operators := map_erase client (Operators chat_channel)\<rparr>
                        else chat_channel)
                 in (Returned True, channels[i := chat_channel],
                     effects
                     @ [SendUnicast client kComponentType_Channel
                          kChannelMessageType_LeaveChannel_Complete
                          [WriteUInt16 kChannelMessageResult_Ok, WriteString channel_name],
                        OnLeaveCompleted kChannelMessageResult_Ok chat_user])
          else
            (Returned True, channels,
             [SendUnicast client kComponentType_Channel
                kChannelMessageType_LeaveChannel_Complete
                [WriteUInt16 kChannelMessageResult_NotInChannel],
              OnLeaveCompleted kChannelMessageResult_NotInChannel chat_user])))))"

text \<open>\<^verbatim>\<open>ChannelComponent::Handle\<close>: any other message type is not handled.\<close>

definition Handle ::
  "ChatServer \<Rightarrow> RemoteChatClient \<Rightarrow> ChannelMessageType \<Rightarrow> string option \<Rightarrow>
     ChatChannel list \<Rightarrow> bool outcome \<times> ChatChannel list \<times> effect list" where
  "Handle server client message_type buffer channels =
     (if message_type = kChannelMessageType_JoinChannel then
        Handle_JoinChannel server client buffer channels
      else if message_type = kChannelMessageType_LeaveChannel then
        Handle_LeaveChannel server client buffer channels
      else (Returned False, channels, []))"

subsection \<open>Sequences of operations\<close>

text \<open>
  The channel lists that sequences of requests and disconnects lead to, from the empty
  list the component starts with. An operation that ends in a null dereference is
  followed to the list it leaves behind as well, so that nothing the code can produce is
  left out.
\<close>

inductive reachable :: "ChatChannel list \<Rightarrow> bool" where
  initial: "reachable []"
| handle:
    "reachable channels \<Longrightarrow>
     Handle server client message_type buffer channels = (result, channels', effects) \<Longrightarrow>
     reachable channels'"
| disconnect:
    "reachable channels \<Longrightarrow>
     OnClientDisconnected heap client channels = (result', channels', effects) \<Longrightarrow>
     reachable channels'"

subsection \<open>Two users for the examples\<close>

text \<open>
  Connection 1 is alice (user object 10), connection 2 is bob (user object 20); both are
  identified and enabled. In \<open>server_bob_gone\<close> bob's user object has been disabled.
\<close>

abbreviation alice :: ChatUser where
  "alice \<equiv> \<lparr>Username = ''alice'', Hostname = ''hostA'', Identified = True, UserEnabled = True\<rparr>"

abbreviation bob :: ChatUser where
  "bob \<equiv> \<lparr>Username = ''bob'', Hostname = ''hostB'', Identified = True, UserEnabled = True\<rparr>"

abbreviation users_example :: "RemoteChatClient \<Rightarrow> ChatUser_ptr option" where
  "users_example \<equiv> (\<lambda>c. if c = 1 then Some 10 else if c = 2 then Some 20 else None)"

abbreviation heap_example :: "ChatUser_ptr \<Rightarrow> ChatUser" where
  "heap_example \<equiv> (\<lambda>p. if p = 10 then alice else bob)"

abbreviation server_example :: ChatServer where
  "server_example \<equiv> \<lparr>UserComponent = Some users_example, Heap = heap_example\<rparr>"

abbreviation heap_bob_gone :: "ChatUser_ptr \<Rightarrow> ChatUser" where
  "heap_bob_gone \<equiv> (\<lambda>p. if p = 10 then alice else bob\<lparr>UserEnabled := False\<rparr>)"

abbreviation server_bob_gone :: ChatServer where
  "server_bob_gone \<equiv> \<lparr>UserComponent = Some users_example, Heap = heap_bob_gone\<rparr>"

subsection \<open>What an operation keeps of a channel\<close>

text \<open>
  Between the list before an operation and the list after it, a channel at the same
  position keeps its name, and is enabled afterwards only if it was before.
\<close>

definition keeps :: "ChatChannel \<Rightarrow> ChatChannel \<Rightarrow> bool" where
  "keeps c c' = (Name c' = Name c \<and> (Enabled c' \<longrightarrow> Enabled c))"

section \<open>Facts about the operations\<close>

lemma map_find_same: "(map_find m xs k \<noteq> map_end m) = (map_of xs k \<noteq> None)"
  by (simp add: map_find_def map_end_def split: option.split)

lemma map_find_other: "map_find OperatorsMap xs k \<noteq> map_end ClientsMap"
  by (simp add: map_find_def map_end_def split: option.split)

lemma Contains_hash: "Contains s ''#'' = (CHR ''#'' \<in> set s)"
proof (induction s)
  case Nil
  show ?case by (simp add: Contains_def)
next
  case (Cons c s)
  then show ?case by (auto simp add: Contains_def list_ex_iff)
qed

lemma find_channel_None:
  "(find_channel n chs = None) = (\<forall>ch \<in> set chs. \<not> (Enabled ch \<and> Name ch = n))"
  by (induction chs) auto

lemma find_channel_Some:
  "find_channel n chs = Some i \<Longrightarrow> i < length chs \<and> Enabled (chs ! i) \<and> Name (chs ! i) = n"
  by (induction chs arbitrary: i) (auto split: if_splits)

lemma find_channel_append:
  "\<forall>ch \<in> set before. \<not> (Enabled ch \<and> Name ch = n) \<Longrightarrow> Enabled c \<Longrightarrow> Name c = n \<Longrightarrow>
   find_channel n (before @ c # after) = Some (length before)"
  by (induction before) auto

lemma map_erase_absent: "map_of xs k = None \<Longrightarrow> map_erase k xs = xs"
  by (induction xs) (auto simp: map_erase_def split: if_splits)


lemma map_erase_empty: "(map_erase k xs = []) = (\<forall>p \<in> set xs. fst p = k)"
  by (auto simp: map_erase_def filter_empty_conv)

lemma map_of_member: "(map_of xs k \<noteq> None) = (k \<in> fst ` set xs)"
  by (simp add: map_of_eq_None_iff)

lemma list_update_middle: "(before @ c # after)[length before := c'] = before @ c' # after"
  by simp

text \<open>The definitions that evaluate an operation on a given input.\<close>

lemmas eval_simps = Handle_def Handle_JoinChannel_def Handle_LeaveChannel_def
  OnClientDisconnected_channel_def Let_def map_find_def map_end_def map_erase_def map_size_def
  WriteUsers_def SendToEnabled_def Contains_hash make_ChatChannel_def

section \<open>Creating a channel\<close>

text \<open>
  C1. When an identified user asks to join a channel whose name contains \<open>#\<close> and no
  enabled channel has that name, the handler appends a new enabled channel of that name
  whose only member and only operator is the joiner, replies \<open>ChannelCreated\<close> to the
  joiner and returns true. Channels of that name that are disabled do not matter.
\<close>

theorem join_creates_channel:
  assumes "UserComponent server = Some user_component"
    and "user_component client = Some chat_user"
    and "Identified (Heap server chat_user)"
    and "CHR ''#'' \<in> set channel_name"
    and "\<forall>channel \<in> set channels. \<not> (Enabled channel \<and> Name channel = channel_name)"
  shows "Handle server client kChannelMessageType_JoinChannel (Some channel_name) channels =
    (Returned True,
     channels @ [\<lparr>Name = channel_name, Enabled = True,
                   Operators = [(client, chat_user)], Clients = [(client, chat_user)]\<rparr>],
     [SendUnicast client kComponentType_Channel kChannelMessageType_JoinChannel_Complete
        [WriteUInt16 kChannelMessageResult_ChannelCreated],
      OnJoinCompleted kChannelMessageResult_ChannelCreated chat_user,
      OnChannelCreated channel_name,
      OnChannelJoined channel_name chat_user])"
proof -
  have absent: "find_channel channel_name channels = None"
    using assms(5) by (simp add: find_channel_None)
  have valid: "Contains channel_name ''#''"
    using assms(4) by (simp add: Contains_hash)
  show ?thesis
    using assms(1-3) absent valid
    by (simp add: Handle_def Handle_JoinChannel_def make_ChatChannel_def)
qed

theorem join_creates_channel_witness:
  "Handle server_example 1 kChannelMessageType_JoinChannel (Some ''#general'')
     [\<lparr>Name = ''#general'', Enabled = False, Operators = [(2, 20)], Clients = []\<rparr>] =
    (Returned True,
     [\<lparr>Name = ''#general'', Enabled = False, Operators = [(2, 20)], Clients = []\<rparr>,
      \<lparr>Name = ''#general'', Enabled = True, Operators = [(1, 10)], Clients = [(1, 10)]\<rparr>],
     [SendUnicast 1 kComponentType_Channel kChannelMessageType_JoinChannel_Complete
        [WriteUInt16 kChannelMessageResult_ChannelCreated],
      OnJoinCompleted kChannelMessageResult_ChannelCreated 10,
      OnChannelCreated ''#general'',
      OnChannelJoined ''#general'' 10])"
  using join_creates_channel
    [where server = server_example and user_component = users_example
       and client = 1 and chat_user = 10 and channel_name = "''#general''"
       and channels = "[\<lparr>Name = ''#general'', Enabled = False, Operators = [(2, 20)],
                          Clients = []\<rparr>]"]
  by simp

section \<open>Channel names without the hash sign\<close>

text \<open>
  C6. When an identified user asks to join or to leave a channel whose name does not
  contain \<open>#\<close>, the handler replies \<open>InvalidChannelName\<close> to the requester, returns
  true, and leaves the channel list as it was: no channel is added, and no channel's
  members, operators or enabled flag change.
\<close>

theorem invalid_name_rejected:
  assumes "UserComponent server = Some user_component"
    and "user_component client = Some chat_user"
    and "Identified (Heap server chat_user)"
    and "CHR ''#'' \<notin> set channel_name"
  shows "Handle server client kChannelMessageType_JoinChannel (Some channel_name) channels =
      (Returned True, channels,
       [SendUnicast client kComponentType_Channel kChannelMessageType_JoinChannel_Complete
          [WriteUInt16 kChannelMessageResult_InvalidChannelName],
        OnJoinCompleted kChannelMessageResult_InvalidChannelName chat_user])
    \<and> Handle server client kChannelMessageType_LeaveChannel (Some channel_name) channels =
      (Returned True, channels,
       [SendUnicast client kComponentType_Channel kChannelMessageType_LeaveChannel_Complete
          [WriteUInt16 kChannelMessageResult_InvalidChannelName],
        OnLeaveCompleted kChannelMessageResult_InvalidChannelName chat_user])"
  using assms
  by (simp add: Handle_def Handle_JoinChannel_def Handle_LeaveChannel_def Contains_hash)

theorem invalid_name_rejected_witness:
  "Handle server_example 1 kChannelMessageType_JoinChannel (Some ''general'')
     [\<lparr>Name = ''general'', Enabled = True, Operators = [(2, 20)], Clients = [(2, 20)]\<rparr>] =
    (Returned True,
     [\<lparr>Name = ''general'', Enabled = True, Operators = [(2, 20)], Clients = [(2, 20)]\<rparr>],
     [SendUnicast 1 kComponentType_Channel kChannelMessageType_JoinChannel_Complete
        [WriteUInt16 kChannelMessageResult_InvalidChannelName],
      OnJoinCompleted kChannelMessageResult_InvalidChannelName 10])
   \<and> Handle server_example 1 kChannelMessageType_LeaveChannel (Some ''general'')
     [\<lparr>Name = ''general'', Enabled = True, Operators = [(2, 20)], Clients = [(2, 20)]\<rparr>] =
    (Returned True,
     [\<lparr>Name = ''general'', Enabled = True, Operators = [(2, 20)], Clients = [(2, 20)]\<rparr>],
     [SendUnicast 1 kComponentType_Channel kChannelMessageType_LeaveChannel_Complete
        [WriteUInt16 kChannelMessageResult_InvalidChannelName],
      OnLeaveCompleted kChannelMessageResult_InvalidChannelName 10])"
  using invalid_name_rejected
    [where server = server_example and user_component = users_example
       and client = 1 and chat_user = 10 and channel_name = "''general''"
       and channels = "[\<lparr>Name = ''general'', Enabled = True, Operators = [(2, 20)],
                          Clients = [(2, 20)]\<rparr>]"]
  by simp

section \<open>How the channel list evolves\<close>

lemma keeps_refl: "keeps c c"
  by (simp add: keeps_def)

lemma keeps_list_refl: "list_all2 keeps cs cs"
  by (simp add: list_all2_refl keeps_refl)

lemma keeps_update:
  "i < length cs \<Longrightarrow> keeps (cs ! i) c' \<Longrightarrow> list_all2 keeps cs (cs[i := c'])"
  by (simp add: list_all2_conv_all_nth nth_list_update keeps_refl)

lemma keeps_names: "list_all2 keeps cs cs' \<Longrightarrow> map Name cs' = map Name cs"
  by (induction rule: list_all2_induct) (simp_all add: keeps_def)

lemma keeps_enabled_names:
  "list_all2 keeps cs cs' \<Longrightarrow>
   set (map Name (filter Enabled cs')) \<subseteq> set (map Name (filter Enabled cs))"
  by (induction rule: list_all2_induct) (auto simp: keeps_def)

lemma keeps_distinct:
  "list_all2 keeps cs cs' \<Longrightarrow> distinct (map Name (filter Enabled cs)) \<Longrightarrow>
   distinct (map Name (filter Enabled cs'))"
proof (induction rule: list_all2_induct)
  case Nil
  then show ?case by simp
next
  case (Cons c cs c' cs')
  from Cons.hyps(2) have sub:
    "set (map Name (filter Enabled cs')) \<subseteq> set (map Name (filter Enabled cs))"
    by (rule keeps_enabled_names)
  show ?case
  proof (cases "Enabled c'")
    case True
    with Cons.hyps(1) have c: "Enabled c" "Name c' = Name c" by (simp_all add: keeps_def)
    with Cons.prems have "Name c \<notin> set (map Name (filter Enabled cs))"
      and "distinct (map Name (filter Enabled cs))" by simp_all
    with sub Cons.IH c True show ?thesis by auto
  next
    case False
    with Cons.prems Cons.IH show ?thesis by (cases "Enabled c") simp_all
  qed
qed

lemma Handle_JoinChannel_step:
  assumes "Handle_JoinChannel server client buffer channels = (result, channels', effects)"
  shows "list_all2 keeps channels channels' \<or>
    (\<exists>chat_channel. channels' = channels @ [chat_channel] \<and>
       find_channel (Name chat_channel) channels = None)"
  using assms
  apply (simp add: Handle_JoinChannel_def Let_def make_ChatChannel_def
      split: option.splits if_splits)
  apply (auto simp: keeps_list_refl keeps_def dest!: find_channel_Some intro!: keeps_update)
  done

lemma Handle_LeaveChannel_step:
  assumes "Handle_LeaveChannel server client buffer channels = (result, channels', effects)"
  shows "list_all2 keeps channels channels'"
  using assms
  apply (simp add: Handle_LeaveChannel_def Let_def
      split: option.splits if_splits)
  apply (auto simp: keeps_list_refl keeps_def dest!: find_channel_Some intro!: keeps_update)
  done

lemma Handle_step:
  assumes "Handle server client message_type buffer channels = (result, channels', effects)"
  shows "list_all2 keeps channels channels' \<or>
    (\<exists>chat_channel. channels' = channels @ [chat_channel] \<and>
       find_channel (Name chat_channel) channels = None)"
  using assms Handle_JoinChannel_step Handle_LeaveChannel_step
  by (auto simp: Handle_def keeps_list_refl split: if_splits)

lemma OnClientDisconnected_channel_keeps:
  "OnClientDisconnected_channel heap client channel = (result, channel', effects) \<Longrightarrow>
   keeps channel channel'"
  by (auto simp: OnClientDisconnected_channel_def Let_def keeps_def
      split: if_splits option.splits outcome.splits)

lemma OnClientDisconnected_step:
  "OnClientDisconnected heap client channels = (result, channels', effects) \<Longrightarrow>
   list_all2 keeps channels channels'"
proof (induction channels arbitrary: result channels' effects)
  case Nil
  then show ?case by simp
next
  case (Cons channel channels)
  obtain r c e where body: "OnClientDisconnected_channel heap client channel = (r, c, e)"
    by (cases "OnClientDisconnected_channel heap client channel")
  then have k: "keeps channel c" by (rule OnClientDisconnected_channel_keeps)
  show ?case
  proof (cases r)
    case NullPointerDereference
    with Cons.prems body k show ?thesis by (auto simp: keeps_list_refl)
  next
    case (Returned u)
    obtain r2 cs2 e2 where rest: "OnClientDisconnected heap client channels = (r2, cs2, e2)"
      by (cases "OnClientDisconnected heap client channels")
    with Cons.IH have "list_all2 keeps channels cs2" by simp
    with Cons.prems body rest Returned k show ?thesis by auto
  qed
qed

lemma append_distinct:
  "find_channel (Name c) cs = None \<Longrightarrow> distinct (map Name (filter Enabled cs)) \<Longrightarrow>
   distinct (map Name (filter Enabled (cs @ [c])))"
  by (fastforce simp: find_channel_None)

section \<open>Enabled channels have different names\<close>

text \<open>
  C8. In every channel list that a sequence of join requests, leave requests and
  disconnects leads to from the empty list, no two enabled channels have the same name. (A
  name may occur again among the disabled channels.)
\<close>

theorem enabled_names_unique:
  "reachable channels \<Longrightarrow> distinct (map Name (filter Enabled channels))"
proof (induction rule: reachable.induct)
  case initial
  show ?case by simp
next
  case (handle channels server client message_type buffer result channels' effects)
  from handle.hyps(2) have
    "list_all2 keeps channels channels' \<or>
     (\<exists>chat_channel. channels' = channels @ [chat_channel] \<and>
        find_channel (Name chat_channel) channels = None)"
    by (rule Handle_step)
  then show ?case
  proof
    assume "list_all2 keeps channels channels'"
    then show ?thesis using handle.IH by (rule keeps_distinct)
  next
    assume "\<exists>chat_channel. channels' = channels @ [chat_channel] \<and>
        find_channel (Name chat_channel) channels = None"
    then obtain chat_channel where "channels' = channels @ [chat_channel]"
      and "find_channel (Name chat_channel) channels = None" by blast
    with handle.IH show ?thesis by (blast intro: append_distinct)
  qed
next
  case (disconnect channels heap client result' channels' effects)
  from disconnect.hyps(2) have "list_all2 keeps channels channels'"
    by (rule OnClientDisconnected_step)
  then show ?case using disconnect.IH by (rule keeps_distinct)
qed


theorem enabled_names_unique_witness:
  "reachable [\<lparr>Name = ''#general'', Enabled = True, Operators = [(1, 10)],
                Clients = [(1, 10), (2, 20)]\<rparr>,
              \<lparr>Name = ''#dev'', Enabled = True, Operators = [(2, 20)], Clients = [(2, 20)]\<rparr>]
   \<and> distinct (map Name (filter Enabled
         [\<lparr>Name = ''#general'', Enabled = True, Operators = [(1, 10)],
                Clients = [(1, 10), (2, 20)]\<rparr>,
              \<lparr>Name = ''#dev'', Enabled = True, Operators = [(2, 20)], Clients = [(2, 20)]\<rparr>]))"
proof -
  have s1: "Handle server_example 1 kChannelMessageType_JoinChannel (Some ''#general'') [] =
    (Returned True,
     [\<lparr>Name = ''#general'', Enabled = True, Operators = [(1, 10)], Clients = [(1, 10)]\<rparr>],
     [SendUnicast 1 kComponentType_Channel kChannelMessageType_JoinChannel_Complete
        [WriteUInt16 kChannelMessageResult_ChannelCreated],
      OnJoinCompleted kChannelMessageResult_ChannelCreated 10,
      OnChannelCreated ''#general'',
      OnChannelJoined ''#general'' 10])"
    by (simp add: eval_simps)
  have s2: "Handle server_example 2 kChannelMessageType_JoinChannel (Some ''#general'')
     [\<lparr>Name = ''#general'', Enabled = True, Operators = [(1, 10)], Clients = [(1, 10)]\<rparr>] =
    (Returned True,
     [\<lparr>Name = ''#general'', Enabled = True, Operators = [(1, 10)],
        Clients = [(1, 10), (2, 20)]\<rparr>],
     [SendUnicast 2 kComponentType_Channel kChannelMessageType_JoinChannel_Complete
       [WriteUInt16 kChannelMessageResult_Ok, WriteUInt32 1,
        WriteString ''alice'', WriteString ''hostA'', WriteUInt32 2,
        WriteString ''alice'', WriteString ''hostA'', WriteString ''bob'', WriteString ''hostB''],
      SendUnicast 1 kComponentType_Channel kChannelMessageType_JoinChannel
       [WriteUInt16 kChannelMessageResult_UserJoined, WriteString ''bob'', WriteString ''hostB''],
      SendUnicast 2 kComponentType_Channel kChannelMessageType_JoinChannel
       [WriteUInt16 kChannelMessageResult_UserJoined, WriteString ''bob'', WriteString ''hostB''],
      OnJoinCompleted kChannelMessageResult_Ok 20,
      OnChannelJoined ''#general'' 20])"
    by (simp add: eval_simps)
  have s3: "Handle server_example 2 kChannelMessageType_JoinChannel (Some ''#dev'')
     [\<lparr>Name = ''#general'', Enabled = True, Operators = [(1, 10)],
        Clients = [(1, 10), (2, 20)]\<rparr>] =
    (Returned True,
     [\<lparr>Name = ''#general'', Enabled = True, Operators = [(1, 10)],
        Clients = [(1, 10), (2, 20)]\<rparr>,
      \<lparr>Name = ''#dev'', Enabled = True, Operators = [(2, 20)], Clients = [(2, 20)]\<rparr>],
     [SendUnicast 2 kComponentType_Channel kChannelMessageType_JoinChannel_Complete
        [WriteUInt16 kChannelMessageResult_ChannelCreated],
      OnJoinCompleted kChannelMessageResult_ChannelCreated 20,
      OnChannelCreated ''#dev'',
      OnChannelJoined ''#dev'' 20])"
    by (simp add: eval_simps)
  have r1: "reachable
    [\<lparr>Name = ''#general'', Enabled = True, Operators = [(1, 10)], Clients = [(1, 10)]\<rparr>]"
    using reachable.initial s1 by (rule reachable.handle)
  have r2: "reachable [\<lparr>Name = ''#general'', Enabled = True, Operators = [(1, 10)],
        Clients = [(1, 10), (2, 20)]\<rparr>]"
    using r1 s2 by (rule reachable.handle)
  have r3: "reachable [\<lparr>Name = ''#general'', Enabled = True, Operators = [(1, 10)],
        Clients = [(1, 10), (2, 20)]\<rparr>,
      \<lparr>Name = ''#dev'', Enabled = True, Operators = [(2, 20)], Clients = [(2, 20)]\<rparr>]"
    using r2 s3 by (rule reachable.handle)
  from r3 enabled_names_unique [OF r3] show ?thesis by simp
qed

section \<open>Channels stay in the list\<close>

text \<open>
  C9. No request and no disconnect takes a channel out of the list: after
  \<open>Handle\<close> the list is at least as long as before and the channels that were there
  are at their positions, under their names; after the disconnect sweep the list has the
  same length and the same names in the same order. Only \<open>Shutdown\<close>, \<open>OnStop\<close>
  and the destructor clear the list.
\<close>

theorem channels_never_removed:
  "length channels \<le> length (fst (snd (Handle server client message_type buffer channels)))
   \<and> map Name (take (length channels)
         (fst (snd (Handle server client message_type buffer channels)))) = map Name channels
   \<and> length (fst (snd (OnClientDisconnected heap client channels))) = length channels
   \<and> map Name (fst (snd (OnClientDisconnected heap client channels))) = map Name channels
   \<and> snd (Shutdown channels) = []
   \<and> snd (OnStop channels) = []
   \<and> destructor channels = []"
proof -
  obtain r cs e where h: "Handle server client message_type buffer channels = (r, cs, e)"
    by (cases "Handle server client message_type buffer channels")
  from h have "list_all2 keeps channels cs \<or>
    (\<exists>chat_channel. cs = channels @ [chat_channel] \<and>
       find_channel (Name chat_channel) channels = None)"
    by (rule Handle_step)
  then have handle: "length channels \<le> length cs
      \<and> map Name (take (length channels) cs) = map Name channels"
  proof
    assume k: "list_all2 keeps channels cs"
    then have "length cs = length channels" by (simp add: list_all2_lengthD)
    with keeps_names [OF k] show ?thesis by simp
  next
    assume "\<exists>chat_channel. cs = channels @ [chat_channel] \<and>
       find_channel (Name chat_channel) channels = None"
    then show ?thesis by auto
  qed
  obtain r' cs' e' where d: "OnClientDisconnected heap client channels = (r', cs', e')"
    by (cases "OnClientDisconnected heap client channels")
  then have k: "list_all2 keeps channels cs'" by (rule OnClientDisconnected_step)
  then have sweep: "length cs' = length channels \<and> map Name cs' = map Name channels"
    by (simp add: list_all2_lengthD keeps_names)
  from handle sweep h d show ?thesis
    by (simp add: Shutdown_def OnStop_def destructor_def)
qed

theorem channels_never_removed_witness:
  "length [\<lparr>Name = ''#general'', Enabled = True, Operators = [(1, 10)], Clients = [(1, 10)]\<rparr>]
     \<le> length (fst (snd (Handle server_example 1 kChannelMessageType_LeaveChannel
         (Some ''#general'')
         [\<lparr>Name = ''#general'', Enabled = True, Operators = [(1, 10)],
            Clients = [(1, 10)]\<rparr>])))
   \<and> length (fst (snd (OnClientDisconnected heap_example 1
         [\<lparr>Name = ''#general'', Enabled = True, Operators = [(1, 10)],
            Clients = [(1, 10)]\<rparr>]))) = 1"
  using channels_never_removed [where server = server_example and client = 1
      and message_type = kChannelMessageType_LeaveChannel and buffer = "Some ''#general''"
      and heap = heap_example and channels =
        "[\<lparr>Name = ''#general'', Enabled = True, Operators = [(1, 10)],
            Clients = [(1, 10)]\<rparr>]"]
  by simp

section \<open>Leaving a channel\<close>

text \<open>
  What a leave request of a member does depends on whether another member remains. When
  one does, the members are notified, the requester is taken out of the members and out of
  the operators, and the reply \<open>Ok\<close> with the channel name follows.
\<close>

lemma leave_with_members_remaining:
  assumes "UserComponent server = Some user_component"
    and "user_component client = Some chat_user"
    and "Identified (Heap server chat_user)"
    and "CHR ''#'' \<in> set channel_name"
    and "\<forall>c \<in> set before. \<not> (Enabled c \<and> Name c = channel_name)"
    and "Enabled channel"
    and "Name channel = channel_name"
    and "client \<in> fst ` set (Clients channel)"
    and "\<exists>p \<in> set (Clients channel). fst p \<noteq> client"
  shows "Handle server client kChannelMessageType_LeaveChannel (Some channel_name)
        (before @ channel # after) =
      (Returned True,
       before @ channel\<lparr>Clients := map_erase client (Clients channel),
                         Operators := map_erase client (Operators channel)\<rparr> # after,
       map (\<lambda>pair. SendUnicast (fst pair) kComponentType_Channel
              kChannelMessageType_LeaveChannel
              [WriteUInt16 kChannelMessageResult_UserLeft,
               WriteString (Username (Heap server chat_user)),
               WriteString (Hostname (Heap server chat_user))])
           (filter (\<lambda>pair. UserEnabled (Heap server (snd pair))) (Clients channel))
       @ [OnChannelLeft channel_name chat_user,
          SendUnicast client kComponentType_Channel kChannelMessageType_LeaveChannel_Complete
            [WriteUInt16 kChannelMessageResult_Ok, WriteString channel_name],
          OnLeaveCompleted kChannelMessageResult_Ok chat_user])"
proof -
  have found: "find_channel channel_name (before @ channel # after) = Some (length before)"
    using assms(5-7) by (simp add: find_channel_append)
  have member: "map_of (Clients channel) client \<noteq> None"
    using assms(8) by (simp add: map_of_eq_None_iff)
  have remaining: "map_erase client (Clients channel) \<noteq> []"
    using assms(9) by (simp add: map_erase_empty)
  show ?thesis
    using assms(1-4,7) found member remaining
    by (simp add: Handle_def Handle_LeaveChannel_def Contains_hash map_find_same
        map_find_other SendToEnabled_def Let_def)
qed

text \<open>
  When the requester is the only member, the notification is sent, the requester is taken
  out of the members and the channel is disabled; then the handler goes through the handle
  it has just reset. The operators are not touched and no reply is written.
\<close>

lemma last_member_leaving:
  assumes "UserComponent server = Some user_component"
    and "user_component client = Some chat_user"
    and "Identified (Heap server chat_user)"
    and "CHR ''#'' \<in> set channel_name"
    and "\<forall>c \<in> set before. \<not> (Enabled c \<and> Name c = channel_name)"
    and "Enabled channel"
    and "Name channel = channel_name"
    and "client \<in> fst ` set (Clients channel)"
    and "\<forall>p \<in> set (Clients channel). fst p = client"
  shows "Handle server client kChannelMessageType_LeaveChannel (Some channel_name)
        (before @ channel # after) =
      (NullPointerDereference,
       before @ channel\<lparr>Clients := [], Enabled := False\<rparr> # after,
       map (\<lambda>pair. SendUnicast (fst pair) kComponentType_Channel
              kChannelMessageType_LeaveChannel
              [WriteUInt16 kChannelMessageResult_UserLeft,
               WriteString (Username (Heap server chat_user)),
               WriteString (Hostname (Heap server chat_user))])
           (filter (\<lambda>pair. UserEnabled (Heap server (snd pair))) (Clients channel))
       @ [OnChannelLeft channel_name chat_user])"
proof -
  have found: "find_channel channel_name (before @ channel # after) = Some (length before)"
    using assms(5-7) by (simp add: find_channel_append)
  have member: "map_of (Clients channel) client \<noteq> None"
    using assms(8) by (simp add: map_of_eq_None_iff)
  have emptied: "map_erase client (Clients channel) = []"
    using assms(9) by (simp add: map_erase_empty)
  show ?thesis
    using assms(1-4,7) found member emptied
    by (simp add: Handle_def Handle_LeaveChannel_def Contains_hash map_find_same
        SendToEnabled_def Let_def)
qed

text \<open>
  C2. The only member of \<open>#general\<close>, alice on connection 1, who is also its operator,
  asks to leave. The handler sends the \<open>UserLeft\<close> notification to connection 1, takes
  it out of the members and disables the channel, and then dereferences a null handle:
  connection 1 is still among the operators, and no \<open>Ok\<close> reply has been sent.
\<close>

theorem leave_last_member_faults:
  "Handle server_example 1 kChannelMessageType_LeaveChannel (Some ''#general'')
     [\<lparr>Name = ''#general'', Enabled = True, Operators = [(1, 10)], Clients = [(1, 10)]\<rparr>] =
   (NullPointerDereference,
    [\<lparr>Name = ''#general'', Enabled = False, Operators = [(1, 10)], Clients = []\<rparr>],
    [SendUnicast 1 kComponentType_Channel kChannelMessageType_LeaveChannel
      [WriteUInt16 kChannelMessageResult_UserLeft, WriteString ''alice'', WriteString ''hostA''],
     OnChannelLeft ''#general'' 10])"
  by (simp add: eval_simps)

section \<open>The disconnect sweep\<close>

lemma sweep_channel_returns:
  assumes "Enabled channel \<and> client \<in> fst ` set (Clients channel) \<longrightarrow>
           (\<exists>p \<in> set (Clients channel). fst p \<noteq> client)"
  shows "OnClientDisconnected_channel heap client channel =
    (Returned (),
     (if Enabled channel
      then channel\<lparr>Clients := map_erase client (Clients channel),
                   Operators := map_erase client (Operators channel)\<rparr>
      else channel),
     (case map_of (Clients channel) client of
        None \<Rightarrow> []
      | Some chat_user \<Rightarrow>
          if Enabled channel
          then map (\<lambda>pair. SendUnicast (fst pair) kComponentType_Channel
                      kChannelMessageType_LeaveChannel
                      [WriteUInt16 kChannelMessageResult_UserLeft,
                       WriteString (Username (heap chat_user)),
                       WriteString (Hostname (heap chat_user))])
                 (filter (\<lambda>pair. UserEnabled (heap (snd pair))) (Clients channel))
               @ [OnChannelLeft (Name channel) chat_user]
          else []))"
proof (cases "Enabled channel")
  case False
  then show ?thesis
    by (simp add: OnClientDisconnected_channel_def split: option.split)
next
  case True
  show ?thesis
  proof (cases "map_of (Clients channel) client")
    case None
    then have "map_erase client (Clients channel) = Clients channel"
      by (rule map_erase_absent)
    with True None show ?thesis
      by (simp add: OnClientDisconnected_channel_def map_find_same map_find_other)
  next
    case (Some chat_user)
    then have "client \<in> fst ` set (Clients channel)"
      using map_of_member [of "Clients channel" client] by simp
    with assms True have "map_erase client (Clients channel) \<noteq> []"
      by (simp add: map_erase_empty)
    with True Some show ?thesis
      by (simp add: OnClientDisconnected_channel_def map_find_same map_find_other
          SendToEnabled_def Let_def)
  qed
qed

lemma sweep_channel_faults:
  assumes "Enabled channel"
    and "map_of (Clients channel) client = Some chat_user"
    and "\<forall>p \<in> set (Clients channel). fst p = client"
  shows "OnClientDisconnected heap client (channel # channels) =
    (NullPointerDereference,
     channel\<lparr>Clients := [], Enabled := False\<rparr> # channels,
     map (\<lambda>pair. SendUnicast (fst pair) kComponentType_Channel
            kChannelMessageType_LeaveChannel
            [WriteUInt16 kChannelMessageResult_UserLeft,
             WriteString (Username (heap chat_user)),
             WriteString (Hostname (heap chat_user))])
         (filter (\<lambda>pair. UserEnabled (heap (snd pair))) (Clients channel))
     @ [OnChannelLeft (Name channel) chat_user])"
proof -
  have emptied: "map_erase client (Clients channel) = []"
    using assms(3) by (simp add: map_erase_empty)
  show ?thesis
    using assms(1,2) emptied
    by (simp add: OnClientDisconnected_channel_def map_find_same SendToEnabled_def Let_def)
qed

text \<open>
  C3, as the claim states it, fails: the notification of the sweep goes to every enabled
  member of the channel, the disconnecting connection among them. Here connection 1
  disconnects from a channel it shares with connection 2, and the \<open>UserLeft\<close>
  notification is sent to connection 1 as well.
\<close>

theorem sweep_notifies_leaver_counterexample:
  "SendUnicast 1 kComponentType_Channel kChannelMessageType_LeaveChannel
     [WriteUInt16 kChannelMessageResult_UserLeft, WriteString ''alice'', WriteString ''hostA'']
   \<in> set (snd (snd (OnClientDisconnected heap_example 1
       [\<lparr>Name = ''#a'', Enabled = True, Operators = [(1, 10)],
          Clients = [(1, 10), (2, 20)]\<rparr>])))"
  by (simp add: eval_simps)

text \<open>
  C3, amended. When the disconnecting connection is not the only member of any enabled
  channel, the sweep visits every channel and returns. In each enabled channel of which
  the connection is a member it sends the \<open>UserLeft\<close> notification, with the user's name
  and host, to every member whose user is enabled (the disconnecting connection included
  when its user still is), raises the channel-left event and takes the connection out of
  the members. In each enabled channel, whether the connection was a member or not, it
  takes the connection out of the operators. Disabled channels are left as they are.
\<close>

theorem sweep_without_emptying:
  assumes "\<forall>channel \<in> set channels.
      Enabled channel \<and> client \<in> fst ` set (Clients channel) \<longrightarrow>
      (\<exists>p \<in> set (Clients channel). fst p \<noteq> client)"
  shows "OnClientDisconnected heap client channels =
    (Returned (),
     map (\<lambda>channel.
            if Enabled channel
            then channel\<lparr>Clients := map_erase client (Clients channel),
                         Operators := map_erase client (Operators channel)\<rparr>
            else channel) channels,
     concat (map (\<lambda>channel.
            case map_of (Clients channel) client of
              None \<Rightarrow> []
            | Some chat_user \<Rightarrow>
                if Enabled channel
                then map (\<lambda>pair. SendUnicast (fst pair) kComponentType_Channel
                            kChannelMessageType_LeaveChannel
                            [WriteUInt16 kChannelMessageResult_UserLeft,
                             WriteString (Username (heap chat_user)),
                             WriteString (Hostname (heap chat_user))])
                       (filter (\<lambda>pair. UserEnabled (heap (snd pair))) (Clients channel))
                     @ [OnChannelLeft (Name channel) chat_user]
                else []) channels))"
  using assms
proof (induction channels)
  case Nil
  show ?case by simp
next
  case (Cons channel channels)
  from Cons.prems have "Enabled channel \<and> client \<in> fst ` set (Clients channel) \<longrightarrow>
      (\<exists>p \<in> set (Clients channel). fst p \<noteq> client)" by simp
  then have body: "OnClientDisconnected_channel heap client channel = 
    (Returned (),
     (if Enabled channel
      then channel\<lparr>Clients := map_erase client (Clients channel),
                   Operators := map_erase client (Operators channel)\<rparr>
      else channel),
     (case map_of (Clients channel) client of
        None \<Rightarrow> []
      | Some chat_user \<Rightarrow>
          if Enabled channel
          then map (\<lambda>pair. SendUnicast (fst pair) kComponentType_Channel
                      kChannelMessageType_LeaveChannel
                      [WriteUInt16 kChannelMessageResult_UserLeft,
                       WriteString (Username (heap chat_user)),
                       WriteString (Hostname (heap chat_user))])
                 (filter (\<lambda>pair. UserEnabled (heap (snd pair))) (Clients channel))
               @ [OnChannelLeft (Name channel) chat_user]
          else []))"
    by (rule sweep_channel_returns)
  from Cons.prems Cons.IH have rest: "OnClientDisconnected heap client channels =
    (Returned (),
     map (\<lambda>channel.
            if Enabled channel
            then channel\<lparr>Clients := map_erase client (Clients channel),
                         Operators := map_erase client (Operators channel)\<rparr>
            else channel) channels,
     concat (map (\<lambda>channel.
            case map_of (Clients channel) client of
              None \<Rightarrow> []
            | Some chat_user \<Rightarrow>
                if Enabled channel
                then map (\<lambda>pair. SendUnicast (fst pair) kComponentType_Channel
                            kChannelMessageType_LeaveChannel
                            [WriteUInt16 kChannelMessageResult_UserLeft,
                             WriteString (Username (heap chat_user)),
                             WriteString (Hostname (heap chat_user))])
                       (filter (\<lambda>pair. UserEnabled (heap (snd pair))) (Clients channel))
                     @ [OnChannelLeft (Name channel) chat_user]
                else []) channels))" by simp
  show ?case
    by (simp only: OnClientDisconnected.simps body rest prod.case outcome.case list.map concat.simps)
qed

theorem sweep_without_emptying_witness:
  "OnClientDisconnected heap_example 1
     [\<lparr>Name = ''#a'', Enabled = True, Operators = [(1, 10)], Clients = [(1, 10), (2, 20)]\<rparr>,
      \<lparr>Name = ''#b'', Enabled = False, Operators = [(1, 10)], Clients = [(1, 10)]\<rparr>,
      \<lparr>Name = ''#c'', Enabled = True, Operators = [(1, 10), (2, 20)], Clients = [(2, 20)]\<rparr>] =
   (Returned (),
    [\<lparr>Name = ''#a'', Enabled = True, Operators = [], Clients = [(2, 20)]\<rparr>,
     \<lparr>Name = ''#b'', Enabled = False, Operators = [(1, 10)], Clients = [(1, 10)]\<rparr>,
     \<lparr>Name = ''#c'', Enabled = True, Operators = [(2, 20)], Clients = [(2, 20)]\<rparr>],
    [SendUnicast 1 kComponentType_Channel kChannelMessageType_LeaveChannel
      [WriteUInt16 kChannelMessageResult_UserLeft, WriteString ''alice'', WriteString ''hostA''],
     SendUnicast 2 kComponentType_Channel kChannelMessageType_LeaveChannel
      [WriteUInt16 kChannelMessageResult_UserLeft, WriteString ''alice'', WriteString ''hostA''],
     OnChannelLeft ''#a'' 10])"
  using sweep_without_emptying [where heap = heap_example and client = 1 and channels =
     "[\<lparr>Name = ''#a'', Enabled = True, Operators = [(1, 10)], Clients = [(1, 10), (2, 20)]\<rparr>,
      \<lparr>Name = ''#b'', Enabled = False, Operators = [(1, 10)], Clients = [(1, 10)]\<rparr>,
      \<lparr>Name = ''#c'', Enabled = True, Operators = [(1, 10), (2, 20)], Clients = [(2, 20)]\<rparr>]"]
  by (simp add: map_erase_def)

section \<open>Joining a channel that exists\<close>

text \<open>
  A join request for a channel that exists and of which the requester is not a member:
  the requester is added to the members, and the reply is built from the operators and
  from the members with the requester among them. Each count is the size of the map; the
  entries are those of the enabled users.
\<close>

lemma join_existing_channel:
  assumes "UserComponent server = Some user_component"
    and "user_component client = Some chat_user"
    and "Identified (Heap server chat_user)"
    and "CHR ''#'' \<in> set channel_name"
    and "\<forall>c \<in> set before. \<not> (Enabled c \<and> Name c = channel_name)"
    and "Enabled channel"
    and "Name channel = channel_name"
    and "client \<notin> fst ` set (Clients channel)"
  shows "Handle server client kChannelMessageType_JoinChannel (Some channel_name)
        (before @ channel # after) =
      (Returned True,
       before @ channel\<lparr>Clients := map_assign client chat_user (Clients channel)\<rparr> # after,
       [SendUnicast client kComponentType_Channel kChannelMessageType_JoinChannel_Complete
          ([WriteUInt16 kChannelMessageResult_Ok,
            WriteUInt32 (of_nat (length (Operators channel)))]
           @ concat (map (\<lambda>pair. [WriteString (Username (Heap server (snd pair))),
                                  WriteString (Hostname (Heap server (snd pair)))])
               (filter (\<lambda>pair. UserEnabled (Heap server (snd pair))) (Operators channel)))
           @ [WriteUInt32 (of_nat (length (map_assign client chat_user (Clients channel))))]
           @ concat (map (\<lambda>pair. [WriteString (Username (Heap server (snd pair))),
                                  WriteString (Hostname (Heap server (snd pair)))])
               (filter (\<lambda>pair. UserEnabled (Heap server (snd pair)))
                  (map_assign client chat_user (Clients channel)))))]
       @ map (\<lambda>pair. SendUnicast (fst pair) kComponentType_Channel
                kChannelMessageType_JoinChannel
                [WriteUInt16 kChannelMessageResult_UserJoined,
                 WriteString (Username (Heap server chat_user)),
                 WriteString (Hostname (Heap server chat_user))])
           (filter (\<lambda>pair. UserEnabled (Heap server (snd pair)))
              (map_assign client chat_user (Clients channel)))
       @ [OnJoinCompleted kChannelMessageResult_Ok chat_user,
          OnChannelJoined channel_name chat_user])"
proof -
  have found: "find_channel channel_name (before @ channel # after) = Some (length before)"
    using assms(5-7) by (simp add: find_channel_append)
  have new: "map_of (Clients channel) client = None"
    using assms(8) by (simp add: map_of_eq_None_iff)
  show ?thesis
    using assms(1-4,7) found new
    by (simp add: Handle_def Handle_JoinChannel_def Contains_hash map_find_same
        WriteUsers_def SendToEnabled_def map_size_def Let_def)
qed

text \<open>
  C4. Bob on connection 2 is the member and operator of \<open>#general\<close>, and his user
  object has been disabled. Alice on connection 1 joins. Her reply announces one operator
  and lists none, and announces two members and lists one: each count is the size of the
  map, while the entries written are those of the enabled users only.
\<close>

theorem join_reply_count_mismatch:
  "Handle server_bob_gone 1 kChannelMessageType_JoinChannel (Some ''#general'')
     [\<lparr>Name = ''#general'', Enabled = True, Operators = [(2, 20)], Clients = [(2, 20)]\<rparr>] =
   (Returned True,
    [\<lparr>Name = ''#general'', Enabled = True, Operators = [(2, 20)],
       Clients = [(1, 10), (2, 20)]\<rparr>],
    [SendUnicast 1 kComponentType_Channel kChannelMessageType_JoinChannel_Complete
      [WriteUInt16 kChannelMessageResult_Ok, WriteUInt32 1, WriteUInt32 2,
       WriteString ''alice'', WriteString ''hostA''],
     SendUnicast 1 kComponentType_Channel kChannelMessageType_JoinChannel
      [WriteUInt16 kChannelMessageResult_UserJoined, WriteString ''alice'',
       WriteString ''hostA''],
     OnJoinCompleted kChannelMessageResult_Ok 10,
     OnChannelJoined ''#general'' 10])"
  by (simp add: eval_simps)

text \<open>
  C5, as the claim states it, fails: the joiner is added to the members before the reply
  is built, so the member list of the reply has the joiner in it. Here bob on connection 2
  joins the channel of alice on connection 1; a reply with the member list \<open>[alice]\<close> is
  not among what the handler sends.
\<close>

theorem second_member_reply_counterexample:
  "SendUnicast 2 kComponentType_Channel kChannelMessageType_JoinChannel_Complete
     [WriteUInt16 kChannelMessageResult_Ok,
      WriteUInt32 1, WriteString ''alice'', WriteString ''hostA'',
      WriteUInt32 1, WriteString ''alice'', WriteString ''hostA'']
   \<notin> set (snd (snd (Handle server_example 2 kChannelMessageType_JoinChannel (Some ''#general'')
       [\<lparr>Name = ''#general'', Enabled = True, Operators = [(1, 10)],
          Clients = [(1, 10)]\<rparr>])))"
  by (simp add: eval_simps)

text \<open>
  C5, amended. When connection \<open>A\<close>, whose user is enabled, is the only member and the
  only operator of the enabled channel \<open>#general\<close>, and a different connection \<open>B\<close> of
  an identified user joins \<open>#general\<close>: \<open>B\<close> is added to the members, and \<open>B\<close>
  receives an \<open>Ok\<close> reply with the operator count 1 and the operator list \<open>[A]\<close>, the
  member count 2 and a member list that holds \<open>A\<close> and, when the user of \<open>B\<close> is
  enabled, \<open>B\<close>, in the order of the connections; then \<open>A\<close> receives a \<open>UserJoined\<close>
  notification with the name and host of \<open>B\<close>'s user, and so does \<open>B\<close> when its user is
  enabled.
\<close>

theorem second_member_joins:
  assumes "UserComponent server = Some user_component"
    and "user_component B = Some user_B"
    and "Identified (Heap server user_B)"
    and "UserEnabled (Heap server user_A)"
    and "A \<noteq> B"
    and "\<forall>channel \<in> set before. \<not> (Enabled channel \<and> Name channel = ''#general'')"
  shows "Handle server B kChannelMessageType_JoinChannel (Some ''#general'')
      (before @ \<lparr>Name = ''#general'', Enabled = True,
                  Operators = [(A, user_A)], Clients = [(A, user_A)]\<rparr> # after) =
    (Returned True,
     before @ \<lparr>Name = ''#general'', Enabled = True, Operators = [(A, user_A)],
                Clients = (if A < B then [(A, user_A), (B, user_B)]
                           else [(B, user_B), (A, user_A)])\<rparr> # after,
     [SendUnicast B kComponentType_Channel kChannelMessageType_JoinChannel_Complete
        ([WriteUInt16 kChannelMessageResult_Ok,
          WriteUInt32 1,
          WriteString (Username (Heap server user_A)),
          WriteString (Hostname (Heap server user_A)),
          WriteUInt32 2]
         @ (if A < B then [WriteString (Username (Heap server user_A)),
                           WriteString (Hostname (Heap server user_A))] else [])
         @ (if UserEnabled (Heap server user_B)
            then [WriteString (Username (Heap server user_B)),
                  WriteString (Hostname (Heap server user_B))] else [])
         @ (if A < B then [] else [WriteString (Username (Heap server user_A)),
                                   WriteString (Hostname (Heap server user_A))]))]
     @ (if A < B then [SendUnicast A kComponentType_Channel kChannelMessageType_JoinChannel
            [WriteUInt16 kChannelMessageResult_UserJoined,
             WriteString (Username (Heap server user_B)),
             WriteString (Hostname (Heap server user_B))]] else [])
     @ (if UserEnabled (Heap server user_B)
        then [SendUnicast B kComponentType_Channel kChannelMessageType_JoinChannel
            [WriteUInt16 kChannelMessageResult_UserJoined,
             WriteString (Username (Heap server user_B)),
             WriteString (Hostname (Heap server user_B))]] else [])
     @ (if A < B then [] else [SendUnicast A kComponentType_Channel kChannelMessageType_JoinChannel
            [WriteUInt16 kChannelMessageResult_UserJoined,
             WriteString (Username (Heap server user_B)),
             WriteString (Hostname (Heap server user_B))]])
     @ [OnJoinCompleted kChannelMessageResult_Ok user_B,
        OnChannelJoined ''#general'' user_B])"
proof -
  let ?general = "\<lparr>Name = ''#general'', Enabled = True,
                  Operators = [(A, user_A)], Clients = [(A, user_A)]\<rparr>"
  have found: "find_channel ''#general'' (before @ ?general # after) = Some (length before)"
    using assms(6) by (simp add: find_channel_append)
  have valid: "Contains ''#general'' ''#''"
    by (simp add: Contains_hash)
  have new: "map_find ClientsMap [(A, user_A)] B = map_end ClientsMap"
    using assms(5) by (simp add: map_find_def map_end_def)
  show ?thesis
    using assms(1-5) found valid new
    by (simp add: Handle_def Handle_JoinChannel_def Let_def map_size_def
        WriteUsers_def SendToEnabled_def)
qed

theorem second_member_joins_witness:
  "Handle server_example 2 kChannelMessageType_JoinChannel (Some ''#general'')
     [\<lparr>Name = ''#general'', Enabled = True, Operators = [(1, 10)], Clients = [(1, 10)]\<rparr>] =
   (Returned True,
    [\<lparr>Name = ''#general'', Enabled = True, Operators = [(1, 10)],
       Clients = [(1, 10), (2, 20)]\<rparr>],
    [SendUnicast 2 kComponentType_Channel kChannelMessageType_JoinChannel_Complete
      [WriteUInt16 kChannelMessageResult_Ok, WriteUInt32 1,
       WriteString ''alice'', WriteString ''hostA'', WriteUInt32 2,
       WriteString ''alice'', WriteString ''hostA'', WriteString ''bob'', WriteString ''hostB''],
     SendUnicast 1 kComponentType_Channel kChannelMessageType_JoinChannel
      [WriteUInt16 kChannelMessageResult_UserJoined, WriteString ''bob'', WriteString ''hostB''],
     SendUnicast 2 kComponentType_Channel kChannelMessageType_JoinChannel
      [WriteUInt16 kChannelMessageResult_UserJoined, WriteString ''bob'', WriteString ''hostB''],
     OnJoinCompleted kChannelMessageResult_Ok 20,
     OnChannelJoined ''#general'' 20])"
  using second_member_joins [where server = server_example and user_component = users_example
      and A = 1 and B = 2 and user_A = 10 and user_B = 20 and before = "[]" and after = "[]"]
  by simp

section \<open>What the handler returns\<close>

text \<open>
  The handler returns false exactly when the message type is neither join nor leave, when
  the channel name cannot be read, or when the user component or the user is not found.
\<close>

lemma Handle_returns_false:
  "(fst (Handle server client message_type buffer channels) = Returned False) =
   ((message_type \<noteq> kChannelMessageType_JoinChannel
       \<and> message_type \<noteq> kChannelMessageType_LeaveChannel)
    \<or> buffer = None
    \<or> UserComponent server = None
    \<or> (\<exists>user_component. UserComponent server = Some user_component
          \<and> user_component client = None))"
  by (auto simp: Handle_def Handle_JoinChannel_def Handle_LeaveChannel_def Let_def
      split: option.splits if_splits)

lemma Handle_faults:
  "(fst (Handle server client message_type buffer channels) = NullPointerDereference) =
   (message_type = kChannelMessageType_LeaveChannel \<and>
    (\<exists>channel_name user_component chat_user i.
       buffer = Some channel_name
       \<and> UserComponent server = Some user_component
       \<and> user_component client = Some chat_user
       \<and> Identified (Heap server chat_user)
       \<and> CHR ''#'' \<in> set channel_name
       \<and> find_channel channel_name channels = Some i
       \<and> client \<in> fst ` set (Clients (channels ! i))
       \<and> map_erase client (Clients (channels ! i)) = []))"
  by (auto simp: Handle_def Handle_JoinChannel_def Handle_LeaveChannel_def Let_def
      Contains_hash map_find_same map_of_eq_None_iff
      split: option.splits if_splits)

text \<open>
  C7. Bob on connection 2 is the only member of \<open>#dev\<close> and asks to leave it: a leave
  request that is recognised and well formed, from a user that is found. The handler does
  not return true; it ends in the null dereference.
\<close>

theorem leave_does_not_return_true:
  "fst (Handle server_example 2 kChannelMessageType_LeaveChannel (Some ''#dev'')
     [\<lparr>Name = ''#general'', Enabled = True, Operators = [(1, 10)], Clients = [(1, 10)]\<rparr>,
      \<lparr>Name = ''#dev'', Enabled = True, Operators = [(2, 20)], Clients = [(2, 20)]\<rparr>])
   = NullPointerDereference"
  by (simp add: eval_simps)

section \<open>Leaving a channel one is not in\<close>

text \<open>
  No request changes the operators of a channel of which the requester is not a member.
\<close>

lemma Handle_keeps_operators_of_others:
  assumes "Handle server client message_type buffer channels = (result, channels', effects)"
    and "i < length channels"
    and "client \<notin> fst ` set (Clients (channels ! i))"
  shows "Operators (channels' ! i) = Operators (channels ! i)"
proof (cases "find_channel (the buffer) channels")
  case None
  with assms show ?thesis
    by (auto simp: Handle_def Handle_JoinChannel_def Handle_LeaveChannel_def Let_def
        nth_append split: option.splits if_splits)
next
  case (Some j)
  then have "j < length channels" by (simp add: find_channel_Some)
  with assms Some show ?thesis
    by (cases "i = j")
       (auto simp: Handle_def Handle_JoinChannel_def Handle_LeaveChannel_def Let_def
          map_find_same map_of_eq_None_iff split: option.splits if_splits)
qed

text \<open>
  C10. When an identified user asks to leave an enabled channel of which the connection is
  not a member, the handler replies \<open>NotInChannel\<close> and the channel list stays as it
  was: the operators of the channel are unchanged, also when the connection is among them.
  The disconnect sweep over the same channel does take the connection out of the
  operators, member or not.
\<close>

theorem leave_not_in_channel_keeps_operators:
  assumes "UserComponent server = Some user_component"
    and "user_component client = Some chat_user"
    and "Identified (Heap server chat_user)"
    and "CHR ''#'' \<in> set channel_name"
    and "\<forall>c \<in> set before. \<not> (Enabled c \<and> Name c = channel_name)"
    and "Enabled channel"
    and "Name channel = channel_name"
    and "client \<notin> fst ` set (Clients channel)"
  shows "Handle server client kChannelMessageType_LeaveChannel (Some channel_name)
        (before @ channel # after) =
      (Returned True, before @ channel # after,
       [SendUnicast client kComponentType_Channel kChannelMessageType_LeaveChannel_Complete
          [WriteUInt16 kChannelMessageResult_NotInChannel],
        OnLeaveCompleted kChannelMessageResult_NotInChannel chat_user])
    \<and> OnClientDisconnected (Heap server) client [channel] =
      (Returned (), [channel\<lparr>Operators := map_erase client (Operators channel)\<rparr>], [])"
proof -
  have found: "find_channel channel_name (before @ channel # after) = Some (length before)"
    using assms(5-7) by (simp add: find_channel_append)
  have absent: "map_of (Clients channel) client = None"
    using assms(8) by (simp add: map_of_eq_None_iff)
  have leave: "Handle server client kChannelMessageType_LeaveChannel (Some channel_name)
        (before @ channel # after) =
      (Returned True, before @ channel # after,
       [SendUnicast client kComponentType_Channel kChannelMessageType_LeaveChannel_Complete
          [WriteUInt16 kChannelMessageResult_NotInChannel],
        OnLeaveCompleted kChannelMessageResult_NotInChannel chat_user])"
    using assms(1-4) found absent
    by (simp add: Handle_def Handle_LeaveChannel_def Contains_hash map_find_same)
  have sweep: "OnClientDisconnected (Heap server) client [channel] =
      (Returned (), [channel\<lparr>Operators := map_erase client (Operators channel)\<rparr>], [])"
    using assms(6) absent
    by (simp add: OnClientDisconnected_channel_def map_find_same map_find_other)
  from leave sweep show ?thesis by simp
qed

theorem leave_not_in_channel_keeps_operators_witness:
  "Handle server_example 1 kChannelMessageType_LeaveChannel (Some ''#general'')
     [\<lparr>Name = ''#general'', Enabled = True, Operators = [(1, 10), (2, 20)],
        Clients = [(2, 20)]\<rparr>] =
   (Returned True,
    [\<lparr>Name = ''#general'', Enabled = True, Operators = [(1, 10), (2, 20)],
       Clients = [(2, 20)]\<rparr>],
    [SendUnicast 1 kComponentType_Channel kChannelMessageType_LeaveChannel_Complete
       [WriteUInt16 kChannelMessageResult_NotInChannel],
     OnLeaveCompleted kChannelMessageResult_NotInChannel 10])
   \<and> OnClientDisconnected heap_example 1
     [\<lparr>Name = ''#general'', Enabled = True, Operators = [(1, 10), (2, 20)],
        Clients = [(2, 20)]\<rparr>] =
   (Returned (),
    [\<lparr>Name = ''#general'', Enabled = True, Operators = [(2, 20)], Clients = [(2, 20)]\<rparr>],
    [])"
  using leave_not_in_channel_keeps_operators [where server = server_example
      and user_component = users_example and client = 1 and chat_user = 10
      and channel_name = "''#general''" and before = "[]" and after = "[]"
      and channel = "\<lparr>Name = ''#general'', Enabled = True, Operators = [(1, 10), (2, 20)],
        Clients = [(2, 20)]\<rparr>"]
  by (simp add: map_erase_def)

end
